theory Spec2Isabelle
  imports Main "HOL-Library.Sublist"
begin

section \<open>Python strings\<close>

text \<open>
  The reviewer works on Python \<open>str\<close> values.  They are modelled as \<open>string\<close>, one
  \<open>char\<close> per character, so the texts and names covered are those over the code
  points \<open>0 .. 255\<close>.  The functions below follow \<open>str\<close> on these code points; the
  character classes of the regular expressions are the ASCII ranges the patterns name.
\<close>

definition newline :: char where
  "newline = CHR 0x0A"

definition quoted :: "string \<Rightarrow> string" where
  "quoted s = [CHR 0x27] @ s @ [CHR 0x27]"

text \<open>The classes \<open>[A-Z]\<close>, \<open>[a-z]\<close> and \<open>[0-9]\<close> of the regular expressions.\<close>

definition is_upper :: "char \<Rightarrow> bool" where
  "is_upper c = (c \<in> set ''ABCDEFGHIJKLMNOPQRSTUVWXYZ'')"

definition is_lower :: "char \<Rightarrow> bool" where
  "is_lower c = (c \<in> set ''abcdefghijklmnopqrstuvwxyz'')"

definition is_digit :: "char \<Rightarrow> bool" where
  "is_digit c = (c \<in> set ''0123456789'')"

text \<open>The characters \<open>str.strip()\<close> removes, those for which \<open>str.isspace\<close>
  holds: space, \<open>\t \n \v \f \r\<close>, the four separators \<open>0x1C .. 0x1F\<close>, the next-line
  character \<open>0x85\<close> and the no-break space \<open>0xA0\<close>.\<close>

definition is_space :: "char \<Rightarrow> bool" where
  "is_space c = (c \<in> set [CHR 0x20, CHR 0x09, CHR 0x0A, CHR 0x0B, CHR 0x0C, CHR 0x0D,
                            CHR 0x1C, CHR 0x1D, CHR 0x1E, CHR 0x1F, CHR 0x85, CHR 0xA0])"

definition lstrip :: "string \<Rightarrow> string" where
  "lstrip s = dropWhile is_space s"

definition rstrip :: "string \<Rightarrow> string" where
  "rstrip s = rev (dropWhile is_space (rev s))"

definition strip :: "string \<Rightarrow> string" where
  "strip s = rstrip (lstrip s)"

text \<open>\<open>line.lstrip(' ')\<close>: only the blank is removed.\<close>

definition lstrip_blank :: "string \<Rightarrow> string" where
  "lstrip_blank s = dropWhile (\<lambda>c. c = CHR 0x20) s"

definition startswith :: "'a list \<Rightarrow> 'a list \<Rightarrow> bool" where
  "startswith s p = (take (length p) s = p)"

definition endswith :: "'a list \<Rightarrow> 'a list \<Rightarrow> bool" where
  "endswith s p = (length p \<le> length s \<and> drop (length s - length p) s = p)"

text \<open>\<open>sub in s\<close>.\<close>

fun contains :: "'a list \<Rightarrow> 'a list \<Rightarrow> bool" where
  "contains [] sub = (sub = [])"
| "contains (c # cs) sub = (startswith (c # cs) sub \<or> contains cs sub)"

text \<open>
  \<open>s.upper()\<close>, as the list of the code points of the result, which may leave the range
  \<open>0 .. 255\<close>: \<open>a .. z\<close> and the lowercase letters \<open>0xE0 .. 0xFE\<close> (the division
  sign \<open>0xF7\<close> apart) move down by 32, the sharp s \<open>0xDF\<close> becomes \<open>SS\<close>, the micro
  sign \<open>0xB5\<close> becomes \<open>0x39C\<close>, \<open>0xFF\<close> becomes \<open>0x178\<close>, and every other
  character stays.
\<close>

definition code_points :: "string \<Rightarrow> nat list" where
  "code_points s = map of_char s"

definition upper_char :: "char \<Rightarrow> nat list" where
  "upper_char c =
     (let n = of_char c :: nat in
      if n = 0xDF then [0x53, 0x53]
      else if n = 0xB5 then [0x39C]
      else if n = 0xFF then [0x178]
      else if (0x61 \<le> n \<and> n \<le> 0x7A) \<or> (0xE0 \<le> n \<and> n \<le> 0xFE \<and> n \<noteq> 0xF7) then [n - 32]
      else [n])"

definition upper :: "string \<Rightarrow> nat list" where
  "upper s = concat (map upper_char s)"

text \<open>
  \<open>s.isupper()\<close>: at least one uppercase character and no lowercase one.  Uppercase
  are \<open>A .. Z\<close>, \<open>0xC0 .. 0xD6\<close> and \<open>0xD8 .. 0xDE\<close>; lowercase are \<open>a .. z\<close>, the
  ordinal indicators \<open>0xAA\<close> and \<open>0xBA\<close>, the micro sign \<open>0xB5\<close>, \<open>0xDF .. 0xF6\<close>
  and \<open>0xF8 .. 0xFF\<close>; no character of the range is titlecase.
\<close>

definition uppercase :: "char \<Rightarrow> bool" where
  "uppercase c =
     (let n = of_char c :: nat in
      (0x41 \<le> n \<and> n \<le> 0x5A) \<or> (0xC0 \<le> n \<and> n \<le> 0xD6) \<or> (0xD8 \<le> n \<and> n \<le> 0xDE))"

definition lowercase :: "char \<Rightarrow> bool" where
  "lowercase c =
     (let n = of_char c :: nat in
      (0x61 \<le> n \<and> n \<le> 0x7A) \<or> n = 0xAA \<or> n = 0xB5 \<or> n = 0xBA
      \<or> (0xDF \<le> n \<and> n \<le> 0xF6) \<or> (0xF8 \<le> n \<and> n \<le> 0xFF))"

definition isupper :: "string \<Rightarrow> bool" where
  "isupper s = (list_ex uppercase s \<and> list_all (\<lambda>c. \<not> lowercase c) s)"

text \<open>\<open>s.split(sep)\<close> for a one-character separator: never the empty list.\<close>

fun split :: "char \<Rightarrow> string \<Rightarrow> string list" where
  "split sep [] = [[]]"
| "split sep (c # cs) =
     (if c = sep then [] # split sep cs
      else (case split sep cs of [] \<Rightarrow> [[c]] | w # ws \<Rightarrow> (c # w) # ws))"

text \<open>\<open>s.split('.')[0]\<close>.\<close>

definition first_component :: "string \<Rightarrow> string" where
  "first_component s = (case split (CHR ''.'') s of [] \<Rightarrow> [] | w # _ \<Rightarrow> w)"

text \<open>\<open>str(n)\<close> and the \<open>{n}\<close> of an f-string, for integers.\<close>

definition digit_char :: "nat \<Rightarrow> char" where
  "digit_char d = ''0123456789'' ! (d mod 10)"

function str_nat :: "nat \<Rightarrow> string" where
  "str_nat n = (if n < 10 then [digit_char n] else str_nat (n div 10) @ [digit_char n])"
  by pat_completeness auto
termination
  by (relation "measure id") auto

declare str_nat.simps [simp del]

definition str_int :: "int \<Rightarrow> string" where
  "str_int i = (if i < 0 then CHR ''-'' # str_nat (nat (- i)) else str_nat (nat i))"

subsection \<open>The regular expressions of the naming rules\<close>

text \<open>
  \<open>re.match\<close> anchors at the start; \<open>$\<close> matches at the end and also just before
  one final newline.  \<open>before_dollar\<close> is the text the pattern body has to cover.
\<close>

definition before_dollar :: "string \<Rightarrow> string" where
  "before_dollar s = (if s \<noteq> [] \<and> last s = newline then butlast s else s)"

text \<open>\<open>^[A-Z][a-zA-Z0-9]+$\<close>\<close>

definition match_class_name :: "string \<Rightarrow> bool" where
  "match_class_name s =
     (case before_dollar s of
        [] \<Rightarrow> False
      | c # cs \<Rightarrow> is_upper c \<and> cs \<noteq> [] \<and>
                 list_all (\<lambda>d. is_lower d \<or> is_upper d \<or> is_digit d) cs)"

text \<open>\<open>^[a-z_][a-z0-9_]*$\<close>\<close>

definition match_snake_name :: "string \<Rightarrow> bool" where
  "match_snake_name s =
     (case before_dollar s of
        [] \<Rightarrow> False
      | c # cs \<Rightarrow> (is_lower c \<or> c = CHR ''_'') \<and>
                 list_all (\<lambda>d. is_lower d \<or> is_digit d \<or> d = CHR ''_'') cs)"

text \<open>\<open>^[A-Z0-9_]+$\<close>\<close>

definition match_constant_name :: "string \<Rightarrow> bool" where
  "match_constant_name s =
     (before_dollar s \<noteq> [] \<and>
      list_all (\<lambda>d. is_upper d \<or> is_digit d \<or> d = CHR ''_'') (before_dollar s))"

section \<open>Tree model\<close>

text \<open>
  A node of Python's \<open>ast\<close> carries its class (with the data fields the checks read), its
  \<open>lineno\<close>, and its child nodes in the order of \<open>ast.iter_child_nodes\<close>, each
  labelled with the name of the field that holds it.  An optional field that is \<open>None\<close> and
  a list field that is empty contribute no child.  The expression-context and operator
  objects carry no information beyond the \<open>ctx\<close> recorded in a \<open>Name\<close>; they are
  not represented as children.
\<close>

datatype ctx = Load | Store | Del

text \<open>The value of an \<open>ast.Constant\<close>.  A float is kept as its \<open>repr\<close>.\<close>

datatype const = CNone | CBool bool | CInt int | CFloat string | CStr string | COther

datatype kind =
    Module
  | FunctionDef string
  | AsyncFunctionDef string
  | ClassDef string
  | Return
  | Assign
  | For
  | AsyncFor
  | While
  | IfStmt
  | With
  | AsyncWith
  | Raise
  | Try
  | TryStar
  | Import
  | ImportFrom "string option"
  | Global "string list"
  | Nonlocal "string list"
  | Expr
  | Pass
  | Break
  | Continue
  | OtherStmt
  | Lambda
  | IfExp
  | DictExpr
  | SetExpr
  | ListExpr
  | Call
  | Constant const
  | Name string ctx
  | OtherExpr
  | ExceptHandler
  | MatchCase
  | Arguments
  | Arg string
  | Alias string "string option"
  | OtherNode

datatype node = Node (kind: kind) (lineno: nat) (children: "(string \<times> node) list")

text \<open>Classes whose instances have a \<open>lineno\<close> attribute (statements, expressions,
  handlers, \<open>arg\<close>, \<open>alias\<close>).\<close>

fun located :: "kind \<Rightarrow> bool" where
  "located Module = False"
| "located MatchCase = False"
| "located Arguments = False"
| "located OtherNode = False"
| "located _ = True"

text \<open>Classes with a field named \<open>body\<close>, and those among them where it is a list.\<close>

fun has_body :: "kind \<Rightarrow> bool" where
  "has_body Module = True"
| "has_body (FunctionDef _) = True"
| "has_body (AsyncFunctionDef _) = True"
| "has_body (ClassDef _) = True"
| "has_body For = True"
| "has_body AsyncFor = True"
| "has_body While = True"
| "has_body IfStmt = True"
| "has_body With = True"
| "has_body AsyncWith = True"
| "has_body Try = True"
| "has_body TryStar = True"
| "has_body ExceptHandler = True"
| "has_body MatchCase = True"
| "has_body Lambda = True"
| "has_body IfExp = True"
| "has_body _ = False"

fun body_is_list :: "kind \<Rightarrow> bool" where
  "body_is_list Lambda = False"
| "body_is_list IfExp = False"
| "body_is_list k = has_body k"

text \<open>\<open>node.f\<close> as the list of nodes held by field \<open>f\<close>: the elements of a list field,
  the one node of a single-valued field, nothing for \<open>None\<close>.\<close>

definition field :: "string \<Rightarrow> node \<Rightarrow> node list" where
  "field f n = map snd (filter (\<lambda>(g, c). g = f) (children n))"

fun is_function :: "kind \<Rightarrow> bool" where
  "is_function (FunctionDef _) = True"
| "is_function _ = False"

fun is_any_function :: "kind \<Rightarrow> bool" where
  "is_any_function (FunctionDef _) = True"
| "is_any_function (AsyncFunctionDef _) = True"
| "is_any_function _ = False"

fun is_class :: "kind \<Rightarrow> bool" where
  "is_class (ClassDef _) = True"
| "is_class _ = False"

fun def_name :: "kind \<Rightarrow> string" where
  "def_name (FunctionDef nm) = nm"
| "def_name (AsyncFunctionDef nm) = nm"
| "def_name (ClassDef nm) = nm"
| "def_name _ = []"

fun is_loop :: "kind \<Rightarrow> bool" where
  "is_loop For = True"
| "is_loop While = True"
| "is_loop _ = False"

fun is_branch :: "kind \<Rightarrow> bool" where
  "is_branch IfStmt = True"
| "is_branch For = True"
| "is_branch While = True"
| "is_branch Try = True"
| "is_branch _ = False"

fun is_mutable_literal :: "kind \<Rightarrow> bool" where
  "is_mutable_literal ListExpr = True"
| "is_mutable_literal DictExpr = True"
| "is_mutable_literal SetExpr = True"
| "is_mutable_literal _ = False"

fun stored_name :: "kind \<Rightarrow> string option" where
  "stored_name (Name i Store) = Some i"
| "stored_name _ = None"

fun loaded_name :: "kind \<Rightarrow> string option" where
  "loaded_name (Name i Load) = Some i"
| "loaded_name _ = None"

fun name_id :: "kind \<Rightarrow> string option" where
  "name_id (Name i _) = Some i"
| "name_id _ = None"

subsection \<open>Node identity and traversal\<close>

text \<open>
  Python compares and decorates node objects by identity.  An object of the tree is
  identified by the path of child positions leading to it from the root.
\<close>

type_synonym path = "nat list"
type_synonym obj = "path \<times> node"

definition iter_child_nodes :: "obj \<Rightarrow> obj list" where
  "iter_child_nodes x =
     map (\<lambda>(i, (f, c)). (fst x @ [i], c)) (enumerate 0 (children (snd x)))"

text \<open>The objects held by one field of an object.\<close>

definition field_objs :: "string \<Rightarrow> obj \<Rightarrow> obj list" where
  "field_objs f x =
     map (\<lambda>(i, (g, c)). (fst x @ [i], c))
       (filter (\<lambda>(i, (g, c)). g = f) (enumerate 0 (children (snd x))))"

definition queue_size :: "obj list \<Rightarrow> nat" where
  "queue_size q = sum_list (map (\<lambda>x. size (snd x)) q)"

lemma children_size: "sum_list (map (\<lambda>fc. size (snd fc)) cs) < size (Node k l cs)"
proof -
  have "sum_list (map (\<lambda>fc. size (snd fc)) cs) \<le> size_list (size_prod (\<lambda>_. 0) size) cs"
    by (induction cs) (auto simp: size_prod_simp)
  then show ?thesis by simp
qed

lemma iter_child_nodes_size: "queue_size (iter_child_nodes x) < size (snd x)"
proof -
  obtain p k l cs where x: "x = (p, Node k l cs)"
    by (cases x, rename_tac p n, case_tac n) auto
  have "map (\<lambda>y. size (snd y)) (iter_child_nodes x) = map (\<lambda>fc. size (snd fc)) cs"
    by (auto simp: iter_child_nodes_def x enumerate_eq_zip intro!: nth_equalityI
        split: prod.splits)
  then show ?thesis
    using children_size [of cs k l] by (simp add: queue_size_def x)
qed

text \<open>\<open>ast.walk\<close>: breadth first, from a queue.\<close>

function walk_queue :: "obj list \<Rightarrow> obj list" where
  "walk_queue [] = []"
| "walk_queue (x # todo) = x # walk_queue (todo @ iter_child_nodes x)"
  by pat_completeness auto
termination
proof (relation "measure queue_size")
  show "wf (measure queue_size)" by simp
next
  fix x :: obj and todo :: "obj list"
  have "0 < size (snd x)" by (cases "snd x") simp
  then show "(todo @ iter_child_nodes x, x # todo) \<in> measure queue_size"
    using iter_child_nodes_size [of x] by (simp add: queue_size_def)
qed

definition walk_obj :: "obj \<Rightarrow> obj list" where
  "walk_obj x = walk_queue [x]"

definition walk :: "node \<Rightarrow> obj list" where
  "walk t = walk_obj ([], t)"

fun is_name :: "kind \<Rightarrow> bool" where
  "is_name (Name _ _) = True"
| "is_name _ = False"

fun the_id :: "kind \<Rightarrow> string" where
  "the_id (Name i _) = i"
| "the_id _ = []"

fun is_store_name :: "kind \<Rightarrow> bool" where
  "is_store_name (Name _ Store) = True"
| "is_store_name _ = False"

fun is_load_name :: "kind \<Rightarrow> bool" where
  "is_load_name (Name _ Load) = True"
| "is_load_name _ = False"

fun is_import_from :: "kind \<Rightarrow> bool" where
  "is_import_from (ImportFrom _) = True"
| "is_import_from _ = False"

fun import_module :: "kind \<Rightarrow> string option" where
  "import_module (ImportFrom m) = m"
| "import_module _ = None"

fun alias_name :: "kind \<Rightarrow> string" where
  "alias_name (Alias nm _) = nm"
| "alias_name _ = []"

text \<open>\<open>node.names\<close> of a \<open>Global\<close> (a \<open>Nonlocal\<close>); no name for another class.\<close>

fun global_names :: "kind \<Rightarrow> string list" where
  "global_names (Global ns) = ns"
| "global_names _ = []"

fun nonlocal_names :: "kind \<Rightarrow> string list" where
  "nonlocal_names (Nonlocal ns) = ns"
| "nonlocal_names _ = []"

text \<open>\<open>isinstance(node, ast.Constant) and isinstance(node.value, (int, float))\<close>;
  \<open>bool\<close> is a subclass of \<open>int\<close>.\<close>

fun is_number :: "kind \<Rightarrow> bool" where
  "is_number (Constant (CInt _)) = True"
| "is_number (Constant (CBool _)) = True"
| "is_number (Constant (CFloat _)) = True"
| "is_number _ = False"

text \<open>\<open>node.value in (0,1,-1,2,-2,0.0,1.0,-1.0,2.0,-2.0)\<close>: \<open>True == 1\<close> and
  \<open>False == 0\<close>; a float equals one of them exactly when its \<open>repr\<close> is one of the
  six listed.\<close>

fun is_small_number :: "kind \<Rightarrow> bool" where
  "is_small_number (Constant (CInt i)) = (i \<in> set [0, 1, - 1, 2, - 2])"
| "is_small_number (Constant (CBool _)) = True"
| "is_small_number (Constant (CFloat r)) =
     (r \<in> set [''0.0'', ''-0.0'', ''1.0'', ''-1.0'', ''2.0'', ''-2.0''])"
| "is_small_number _ = False"

text \<open>\<open>{node.value}\<close> of a number.\<close>

fun str_value :: "kind \<Rightarrow> string" where
  "str_value (Constant (CInt i)) = str_int i"
| "str_value (Constant (CBool b)) = (if b then ''True'' else ''False'')"
| "str_value (Constant (CFloat r)) = r"
| "str_value _ = []"

fun is_bool_constant :: "kind \<Rightarrow> bool" where
  "is_bool_constant (Constant (CBool _)) = True"
| "is_bool_constant _ = False"

fun string_constant :: "kind \<Rightarrow> string option" where
  "string_constant (Constant (CStr s)) = Some s"
| "string_constant _ = None"

text \<open>\<open>getattr(node, 'lineno', '?')\<close> inside an f-string.\<close>

definition lineno_or_unknown :: "node \<Rightarrow> string" where
  "lineno_or_unknown n = (if located (kind n) then str_nat (lineno n) else ''?'')"

text \<open>\<open>isinstance(node.func, ast.Name) and node.func.id == nm\<close> for a \<open>Call\<close>.\<close>

definition calls_name :: "node \<Rightarrow> string \<Rightarrow> bool" where
  "calls_name n nm =
     (kind n = Call \<and> list_ex (\<lambda>f. is_name (kind f) \<and> the_id (kind f) = nm) (field ''func'' n))"

text \<open>\<open>node.args.args\<close> and \<open>node.args.defaults\<close> of a function definition.\<close>

definition args_args :: "node \<Rightarrow> node list" where
  "args_args n = concat (map (field ''args'') (field ''args'' n))"

definition args_defaults :: "node \<Rightarrow> node list" where
  "args_defaults n = concat (map (field ''defaults'') (field ''args'' n))"

section \<open>The reviewer\<close>

text \<open>
  The collaborators outside the repository: \<open>ast.parse\<close> (a tree, or the text of the
  \<open>SyntaxError\<close>), the error count of \<open>pycodestyle\<close>, and \<open>inspect.cleandoc\<close>,
  which \<open>ast.get_docstring\<close> applies to the docstring.
\<close>

record env =
  ast_parse :: "string \<Rightarrow> string + node"
  total_errors :: "string \<Rightarrow> nat"
  cleandoc :: "string \<Rightarrow> string"

text \<open>
  The object state of \<open>CodeReviewer\<close>.  \<open>parent\<close> holds the \<open>parent\<close> attributes
  that \<open>check_line_numbers\<close> puts on the nodes of \<open>tree\<close>: an object without the
  attribute has no entry.
\<close>

record reviewer =
  issues :: "string list"
  lines :: "string list"
  tree :: "node option"
  parent :: "path \<rightharpoonup> obj"

text \<open>\<open>__init__\<close>\<close>

definition init :: reviewer where
  "init = \<lparr>issues = [], lines = [], tree = None, parent = Map.empty\<rparr>"

text \<open>
  A routine either returns or raises, and leaves the object in some state either way.
  \<open>NonTermination\<close> stands for a loop that never ends.
\<close>

datatype error = ValueError | AttributeError | NonTermination

type_synonym routine = "reviewer \<Rightarrow> error option \<times> reviewer"

definition ok :: routine where
  "ok r = (None, r)"

definition raise :: "error \<Rightarrow> routine" where
  "raise e r = (Some e, r)"

definition seq :: "routine \<Rightarrow> routine \<Rightarrow> routine" where
  "seq f g r = (case f r of (None, r') \<Rightarrow> g r' | (Some e, r') \<Rightarrow> (Some e, r'))"

definition do_when :: "bool \<Rightarrow> routine \<Rightarrow> routine" where
  "do_when c f = (if c then f else ok)"

fun for_each :: "'a list \<Rightarrow> ('a \<Rightarrow> routine) \<Rightarrow> routine" where
  "for_each [] body = ok"
| "for_each (x # xs) body = seq (body x) (for_each xs body)"

text \<open>\<open>self.issues.append(m)\<close>\<close>

definition add_issue :: "string \<Rightarrow> routine" where
  "add_issue m r = (None, r\<lparr>issues := issues r @ [m]\<rparr>)"

text \<open>Reading \<open>self.tree\<close> where a tree is needed: \<open>ast.walk(None)\<close> raises.\<close>

definition with_tree :: "(node \<Rightarrow> routine) \<Rightarrow> routine" where
  "with_tree f r = (case tree r of None \<Rightarrow> raise AttributeError r | Some t \<Rightarrow> f t r)"

text \<open>\<open>for node in ast.walk(self.tree)\<close>\<close>

definition for_nodes :: "(obj \<Rightarrow> routine) \<Rightarrow> routine" where
  "for_nodes body = with_tree (\<lambda>t. for_each (walk t) body)"

text \<open>Reading \<open>self.lines\<close>, and \<open>for i, line in enumerate(self.lines, start=1)\<close>.\<close>

definition with_lines :: "(string list \<Rightarrow> routine) \<Rightarrow> routine" where
  "with_lines f r = f (lines r) r"

definition for_lines :: "(nat \<Rightarrow> string \<Rightarrow> routine) \<Rightarrow> routine" where
  "for_lines body = with_lines (\<lambda>ls. for_each (enumerate 1 ls) (\<lambda>(i, line). body i line))"

text \<open>Reading the \<open>parent\<close> attributes of the nodes.\<close>

definition with_parent :: "((path \<rightharpoonup> obj) \<Rightarrow> routine) \<Rightarrow> routine" where
  "with_parent f r = f (parent r) r"

definition load_code :: "string \<Rightarrow> routine" where
  "load_code code r = (None, r\<lparr>lines := split newline code\<rparr>)"

text \<open>A tree that was just parsed consists of new objects: none has a \<open>parent\<close> yet.\<close>

definition parse_code :: "env \<Rightarrow> string \<Rightarrow> routine" where
  "parse_code E code r =
     (case ast_parse E code of
        Inr t \<Rightarrow> (None, r\<lparr>tree := Some t, parent := Map.empty\<rparr>)
      | Inl e \<Rightarrow> add_issue (''SyntaxError: '' @ e) r)"

definition check_style :: "env \<Rightarrow> string \<Rightarrow> routine" where
  "check_style E code = do_when (0 < total_errors E code) (add_issue ''Style issues found.'')"

text \<open>\<open>ast.get_docstring\<close> of a definition node.\<close>

definition get_docstring :: "env \<Rightarrow> node \<Rightarrow> string option" where
  "get_docstring E n =
     (case field ''body'' n of
        [] \<Rightarrow> None
      | b # _ \<Rightarrow>
          if kind b = Expr then
            (case field ''value'' b of
               [v] \<Rightarrow> map_option (cleandoc E) (string_constant (kind v))
             | _ \<Rightarrow> None)
          else None)"

text \<open>\<open>not ast.get_docstring(node)\<close>\<close>

definition no_docstring :: "env \<Rightarrow> node \<Rightarrow> bool" where
  "no_docstring E n = (case get_docstring E n of None \<Rightarrow> True | Some d \<Rightarrow> d = [])"

definition check_missing_docstrings :: "env \<Rightarrow> routine" where
  "check_missing_docstrings E =
     for_nodes (\<lambda>node.
       seq (do_when (is_function (kind (snd node)) \<and> no_docstring E (snd node))
              (add_issue (''Missing docstring in function ''
                 @ quoted (def_name (kind (snd node))) @ ''.'')))
           (do_when (is_class (kind (snd node)) \<and> no_docstring E (snd node))
              (add_issue (''Missing docstring in class ''
                 @ quoted (def_name (kind (snd node))) @ ''.''))))"

definition check_class_names :: routine where
  "check_class_names =
     for_nodes (\<lambda>node.
       do_when (is_class (kind (snd node)) \<and> \<not> match_class_name (def_name (kind (snd node))))
         (add_issue (''Class '' @ quoted (def_name (kind (snd node))) @ '' naming style.'')))"

definition check_function_names :: routine where
  "check_function_names =
     for_nodes (\<lambda>node.
       do_when (is_function (kind (snd node)) \<and> \<not> match_snake_name (def_name (kind (snd node))))
         (add_issue (''Function '' @ quoted (def_name (kind (snd node))) @ '' naming style.'')))"

definition check_variable_names :: routine where
  "check_variable_names =
     for_nodes (\<lambda>node.
       do_when (is_store_name (kind (snd node)) \<and> \<not> match_snake_name (the_id (kind (snd node))))
         (add_issue (''Variable '' @ quoted (the_id (kind (snd node))) @ '' naming style.'')))"

definition check_constant_names :: routine where
  "check_constant_names =
     for_nodes (\<lambda>node.
       do_when (kind (snd node) = Assign)
         (for_each (field ''targets'' (snd node)) (\<lambda>t.
            do_when (is_name (kind t) \<and> isupper (the_id (kind t))
                  \<and> \<not> match_constant_name (the_id (kind t)))
              (add_issue (''Constant '' @ quoted (the_id (kind t)) @ '' naming style.'')))))"

text \<open>The names one node adds to \<open>imports\<close> in \<open>check_unused_imports\<close>.\<close>

definition imports_of :: "node \<Rightarrow> string list" where
  "imports_of n =
     (if kind n = Import
      then map (\<lambda>a. first_component (alias_name (kind a))) (field ''names'' n) else [])
     @ (if is_import_from (kind n)
        then [case import_module (kind n) of
                None \<Rightarrow> []
              | Some m \<Rightarrow> if m \<noteq> [] then first_component m else []]
        else [])"

definition collect_imports :: "node \<Rightarrow> string list" where
  "collect_imports t = concat (map (\<lambda>node. imports_of (snd node)) (walk t))"

definition used_imports :: "node \<Rightarrow> string set" where
  "used_imports t =
     set (map (\<lambda>node. the_id (kind (snd node)))
            (filter (\<lambda>node. is_load_name (kind (snd node))) (walk t)))"

definition check_unused_imports :: routine where
  "check_unused_imports =
     with_tree (\<lambda>t.
       for_each (collect_imports t) (\<lambda>i.
         do_when (i \<notin> used_imports t)
           (add_issue (''Unused import '' @ quoted i @ ''.''))))"

definition builtins :: "string list" where
  "builtins =
     [''abs'', ''all'', ''any'', ''ascii'', ''bin'', ''bool'', ''breakpoint'', ''bytearray'',
      ''bytes'', ''callable'', ''chr'', ''classmethod'', ''compile'', ''complex'', ''delattr'',
      ''dict'', ''dir'', ''divmod'', ''enumerate'', ''eval'', ''exec'', ''filter'', ''float'',
      ''format'', ''frozenset'', ''getattr'', ''globals'', ''hasattr'', ''hash'', ''help'',
      ''hex'', ''id'', ''input'', ''int'', ''isinstance'', ''issubclass'', ''iter'', ''len'',
      ''list'', ''locals'', ''map'', ''max'', ''memoryview'', ''min'', ''next'', ''object'',
      ''oct'', ''open'', ''ord'', ''pow'', ''print'', ''property'', ''range'', ''repr'',
      ''reversed'', ''round'', ''set'', ''setattr'', ''slice'', ''sorted'', ''staticmethod'',
      ''str'', ''sum'', ''super'', ''tuple'', ''type'', ''vars'', ''zip'']"

definition check_redefined_builtins :: routine where
  "check_redefined_builtins =
     for_nodes (\<lambda>node.
       seq (do_when (is_function (kind (snd node)) \<and> def_name (kind (snd node)) \<in> set builtins)
              (add_issue (''Redefining builtin '' @ quoted (def_name (kind (snd node))) @ ''.'')))
           (do_when (is_store_name (kind (snd node)) \<and> the_id (kind (snd node)) \<in> set builtins)
              (add_issue (''Redefining builtin '' @ quoted (the_id (kind (snd node))) @ ''.''))))"

definition magic :: "string list" where
  "magic =
     [''__init__'', ''__str__'', ''__repr__'', ''__len__'', ''__getitem__'', ''__setitem__'',
      ''__delitem__'', ''__iter__'', ''__next__'', ''__call__'', ''__contains__'', ''__enter__'',
      ''__exit__'', ''__add__'', ''__sub__'', ''__mul__'', ''__truediv__'', ''__floordiv__'',
      ''__mod__'', ''__pow__'', ''__and__'', ''__or__'', ''__xor__'', ''__lt__'', ''__le__'',
      ''__gt__'', ''__ge__'', ''__eq__'', ''__ne__'']"

definition check_magic_methods :: routine where
  "check_magic_methods =
     for_nodes (\<lambda>node.
       do_when (is_function (kind (snd node))
                \<and> startswith (def_name (kind (snd node))) ''__''
                \<and> endswith (def_name (kind (snd node))) ''__''
                \<and> def_name (kind (snd node)) \<notin> set magic)
         (add_issue (''Unknown magic method '' @ quoted (def_name (kind (snd node))) @ ''.'')))"

text \<open>
  The \<open>while parent:\<close> loop of \<open>check_unreachable_code\<close>, up to its \<open>break\<close>:
  the first object on the parent chain, the node itself included, that has a \<open>body\<close>.
  The outer \<open>None\<close> is the loop that never ends, \<open>Some None\<close> the chain that ends
  without such an object.
\<close>

partial_function (option) find_body_holder :: "(path \<rightharpoonup> obj) \<Rightarrow> obj \<Rightarrow> obj option option" where
  "find_body_holder par x =
     (if has_body (kind (snd x)) then Some (Some x)
      else (case par (fst x) of None \<Rightarrow> Some None | Some y \<Rightarrow> find_body_holder par y))"

text \<open>\<open>body.index(node)\<close>: nodes are compared by identity.\<close>

fun index_of :: "path \<Rightarrow> obj list \<Rightarrow> nat option" where
  "index_of p [] = None"
| "index_of p (x # xs) = (if fst x = p then Some 0 else map_option Suc (index_of p xs))"

definition unreachable_after :: "(path \<rightharpoonup> obj) \<Rightarrow> obj \<Rightarrow> routine" where
  "unreachable_after par node =
     (case find_body_holder par node of
        None \<Rightarrow> raise NonTermination
      | Some None \<Rightarrow> ok
      | Some (Some holder) \<Rightarrow>
          if \<not> body_is_list (kind (snd holder)) then raise AttributeError
          else (case index_of (fst node) (field_objs ''body'' holder) of
                  None \<Rightarrow> raise ValueError
                | Some index_of_return \<Rightarrow>
                    for_each (drop (index_of_return + 1) (field_objs ''body'' holder)) (\<lambda>n.
                      if located (kind (snd n))
                      then add_issue (''Unreachable code after return in line ''
                             @ str_nat (lineno (snd n)) @ ''.'')
                      else raise AttributeError)))"

definition check_unreachable_code :: routine where
  "check_unreachable_code =
     with_parent (\<lambda>par. for_nodes (\<lambda>node.
       do_when (kind (snd node) = Return) (unreachable_after par node)))"

definition count_branches :: "obj \<Rightarrow> nat" where
  "count_branches node = length (filter (\<lambda>subnode. is_branch (kind (snd subnode))) (walk_obj node))"

definition check_too_many_branches :: routine where
  "check_too_many_branches =
     for_nodes (\<lambda>node.
       do_when (is_any_function (kind (snd node)) \<and> 10 < count_branches node)
         (add_issue (''Too many branches ('' @ str_nat (count_branches node)
            @ '') in function '' @ quoted (def_name (kind (snd node))) @ ''.'')))"

definition check_too_many_arguments :: routine where
  "check_too_many_arguments =
     for_nodes (\<lambda>node.
       do_when (is_any_function (kind (snd node)) \<and> 5 < length (args_args (snd node)))
         (add_issue (''Function '' @ quoted (def_name (kind (snd node)))
            @ '' has too many args ('' @ str_nat (length (args_args (snd node))) @ '').'')))"

definition check_nested_functions :: routine where
  "check_nested_functions =
     for_nodes (\<lambda>node.
       do_when (is_function (kind (snd node)))
         (for_each (field ''body'' (snd node)) (\<lambda>inner.
            do_when (is_function (kind inner))
              (add_issue (''Nested function '' @ quoted (def_name (kind inner)) @ '' in ''
                 @ quoted (def_name (kind (snd node))) @ ''.'')))))"

definition check_empty_blocks :: routine where
  "check_empty_blocks =
     for_nodes (\<lambda>node.
       do_when (has_body (kind (snd node)) \<and> body_is_list (kind (snd node))
                \<and> length (field ''body'' (snd node)) = 0)
         (add_issue (''Empty block at line '' @ lineno_or_unknown (snd node) @ ''.'')))"

text \<open>
  The loop \<open>while temp: parents.append(temp); temp = getattr(temp, 'parent', None)\<close>:
  the node and the objects reached from it through \<open>parent\<close>; \<open>None\<close> when it
  never ends.
\<close>

partial_function (option) parent_chain :: "(path \<rightharpoonup> obj) \<Rightarrow> obj \<Rightarrow> obj list option" where
  "parent_chain par temp =
     (case par (fst temp) of
        None \<Rightarrow> Some [temp]
      | Some p \<Rightarrow> Option.bind (parent_chain par p) (\<lambda>parents. Some (temp # parents)))"

text \<open>The body shared by the three ancestry checks: \<open>flag\<close> unless one object of the
  chain satisfies \<open>wanted\<close>.\<close>

definition unless_ancestor :: "(path \<rightharpoonup> obj) \<Rightarrow> (kind \<Rightarrow> bool) \<Rightarrow> obj \<Rightarrow> routine \<Rightarrow> routine" where
  "unless_ancestor par wanted node flag =
     (case parent_chain par node of
        None \<Rightarrow> raise NonTermination
      | Some parents \<Rightarrow> do_when (\<not> list_ex (\<lambda>p. wanted (kind (snd p))) parents) flag)"

definition check_break_outside_loop :: routine where
  "check_break_outside_loop =
     with_parent (\<lambda>par. for_nodes (\<lambda>node.
       do_when (kind (snd node) = Break)
         (unless_ancestor par is_loop node
            (add_issue (''Break outside loop at line '' @ str_nat (lineno (snd node)) @ ''.'')))))"

definition check_continue_outside_loop :: routine where
  "check_continue_outside_loop =
     with_parent (\<lambda>par. for_nodes (\<lambda>node.
       do_when (kind (snd node) = Continue)
         (unless_ancestor par is_loop node
            (add_issue (''Continue outside loop at line '' @ str_nat (lineno (snd node)) @ ''.'')))))"

definition check_raise_without_exception :: routine where
  "check_raise_without_exception =
     for_nodes (\<lambda>node.
       do_when (kind (snd node) = Raise \<and> field ''exc'' (snd node) = [])
         (add_issue (''Raise without exception at line '' @ str_nat (lineno (snd node)) @ ''.'')))"

definition check_return_outside_function :: routine where
  "check_return_outside_function =
     with_parent (\<lambda>par. for_nodes (\<lambda>node.
       do_when (kind (snd node) = Return)
         (unless_ancestor par is_any_function node
            (add_issue (''Return outside function at line '' @ str_nat (lineno (snd node)) @ ''.'')))))"

definition check_global_usage :: routine where
  "check_global_usage =
     for_nodes (\<lambda>node.
       for_each (global_names (kind (snd node))) (\<lambda>name.
         add_issue (''Global variable usage '' @ quoted name @ '' at line ''
           @ str_nat (lineno (snd node)) @ ''.'')))"

definition check_nonlocal_usage :: routine where
  "check_nonlocal_usage =
     for_nodes (\<lambda>node.
       for_each (nonlocal_names (kind (snd node))) (\<lambda>name.
         add_issue (''Nonlocal usage '' @ quoted name @ '' at line ''
           @ str_nat (lineno (snd node)) @ ''.'')))"

definition check_mutable_defaults :: routine where
  "check_mutable_defaults =
     for_nodes (\<lambda>node.
       do_when (is_any_function (kind (snd node)))
         (for_each (args_defaults (snd node)) (\<lambda>d.
            do_when (is_mutable_literal (kind d))
              (add_issue (''Mutable default argument in ''
                 @ quoted (def_name (kind (snd node))) @ ''.'')))))"

definition check_print_statements :: routine where
  "check_print_statements =
     for_nodes (\<lambda>node.
       do_when (calls_name (snd node) ''print'')
         (add_issue (''Print statement at line '' @ str_nat (lineno (snd node)) @ ''.'')))"

definition check_exec_usage :: routine where
  "check_exec_usage =
     for_nodes (\<lambda>node.
       do_when (calls_name (snd node) ''exec'')
         (add_issue (''Exec usage at line '' @ str_nat (lineno (snd node)) @ ''.'')))"

definition check_eval_usage :: routine where
  "check_eval_usage =
     for_nodes (\<lambda>node.
       do_when (calls_name (snd node) ''eval'')
         (add_issue (''Eval usage at line '' @ str_nat (lineno (snd node)) @ ''.'')))"

text \<open>\<open>node.parent\<close> is read as an attribute: it raises when the object has none.\<close>

definition pass_statement :: "(path \<rightharpoonup> obj) \<Rightarrow> obj \<Rightarrow> routine" where
  "pass_statement par node =
     (case par (fst node) of
        None \<Rightarrow> raise AttributeError
      | Some p \<Rightarrow>
          if is_function (kind (snd p)) then ok
          else if is_class (kind (snd p)) then ok
          else if kind (snd p) = IfStmt then ok
          else add_issue (''Pass statement at line '' @ str_nat (lineno (snd node))
                 @ '' might be unnecessary.''))"

definition check_pass_statements :: routine where
  "check_pass_statements =
     with_parent (\<lambda>par. for_nodes (\<lambda>node.
       do_when (kind (snd node) = Pass) (pass_statement par node)))"

definition check_comment_format :: routine where
  "check_comment_format =
     for_lines (\<lambda>i line.
       do_when (startswith (strip line) ''#'' \<and> length (strip line) = 1)
         (add_issue (''Empty comment at line '' @ str_nat i @ ''.'')))"

definition check_magic_number :: routine where
  "check_magic_number =
     for_nodes (\<lambda>node.
       do_when (is_number (kind (snd node)) \<and> \<not> is_small_number (kind (snd node)))
         (add_issue (''Magic number '' @ quoted (str_value (kind (snd node))) @ '' at line ''
            @ lineno_or_unknown (snd node) @ ''.'')))"

definition check_boolean_traps :: routine where
  "check_boolean_traps =
     for_nodes (\<lambda>node.
       do_when (kind (snd node) = IfStmt
                \<and> list_ex (\<lambda>t. is_bool_constant (kind t)) (field ''test'' (snd node)))
         (add_issue (''Boolean literal if at line '' @ str_nat (lineno (snd node)) @ ''.'')))"

definition check_todo_comments :: routine where
  "check_todo_comments =
     for_lines (\<lambda>i line.
       do_when (contains (upper line) (code_points ''TODO''))
         (add_issue (''TODO comment at line '' @ str_nat i @ ''.'')))"

definition check_long_lines :: routine where
  "check_long_lines =
     for_lines (\<lambda>i line.
       do_when (79 < length line)
         (add_issue (''Long line ('' @ str_nat (length line) @ '') at line ''
            @ str_nat i @ ''.'')))"

definition check_multiple_imports_on_one_line :: routine where
  "check_multiple_imports_on_one_line =
     for_lines (\<lambda>i line.
       do_when (startswith (strip line) ''import'' \<and> contains line '','')
         (add_issue (''Multiple imports on one line at line '' @ str_nat i @ ''.'')))"

definition check_bad_indentation :: routine where
  "check_bad_indentation =
     for_lines (\<lambda>i line.
       do_when ((length line - length (lstrip_blank line)) mod 4 \<noteq> 0 \<and> strip line \<noteq> [])
         (add_issue (''Bad indentation at line '' @ str_nat i @ ''.'')))"

definition check_semicolons :: routine where
  "check_semicolons =
     for_lines (\<lambda>i line.
       do_when (contains line '';'' \<and> \<not> startswith (strip line) ''#'')
         (add_issue (''Semicolon at line '' @ str_nat i @ ''.'')))"

definition check_tabs :: routine where
  "check_tabs =
     for_lines (\<lambda>i line.
       do_when (contains line [CHR 0x09])
         (add_issue (''Tab character at line '' @ str_nat i @ ''.'')))"

definition check_trailing_whitespace :: routine where
  "check_trailing_whitespace =
     for_lines (\<lambda>i line.
       do_when (rstrip line \<noteq> line)
         (add_issue (''Trailing whitespace at line '' @ str_nat i @ ''.'')))"

definition check_multiple_statements :: routine where
  "check_multiple_statements =
     for_lines (\<lambda>i line.
       do_when (1 < count_list (strip line) (CHR '';''))
         (add_issue (''Multiple statements at line '' @ str_nat i @ ''.'')))"

definition check_exception_handling :: routine where
  "check_exception_handling =
     for_nodes (\<lambda>node.
       do_when (kind (snd node) = Try \<and> field ''handlers'' (snd node) = [])
         (add_issue (''Try without except at line '' @ str_nat (lineno (snd node)) @ ''.'')))"

definition check_empty_exceptions :: routine where
  "check_empty_exceptions =
     for_nodes (\<lambda>node.
       do_when (kind (snd node) = ExceptHandler \<and> field ''type'' (snd node) = [])
         (add_issue (''Catch-all except at line '' @ str_nat (lineno (snd node)) @ ''.'')))"

definition check_useless_else_on_loop :: routine where
  "check_useless_else_on_loop =
     for_nodes (\<lambda>node.
       do_when ((kind (snd node) = For \<or> kind (snd node) = While)
                \<and> field ''orelse'' (snd node) \<noteq> [])
         (add_issue (''Else on loop at line '' @ str_nat (lineno (snd node)) @ ''.'')))"

text \<open>\<open>node.func.id in ('exit', 'quit')\<close>; the message repeats the name called.\<close>

definition check_direct_exit_calls :: routine where
  "check_direct_exit_calls =
     for_nodes (\<lambda>node.
       do_when (kind (snd node) = Call)
         (for_each (field ''func'' (snd node)) (\<lambda>func.
            do_when (is_name (kind func) \<and> the_id (kind func) \<in> set [''exit'', ''quit''])
              (add_issue (''Direct '' @ the_id (kind func) @ '' call at line ''
                 @ str_nat (lineno (snd node)) @ ''.'')))))"

definition check_recursion_limit :: routine where
  "check_recursion_limit = ok"

definition check_lambda_usage :: routine where
  "check_lambda_usage =
     for_nodes (\<lambda>node.
       do_when (kind (snd node) = Lambda)
         (add_issue (''Lambda usage at line '' @ str_nat (lineno (snd node)) @ ''.'')))"

definition check_format_vs_fstring :: routine where
  "check_format_vs_fstring =
     for_lines (\<lambda>i line.
       do_when (contains line ''.format('' \<and> contains line ''print'')
         (add_issue (''Consider f-string at line '' @ str_nat i @ ''.'')))"

definition check_mutable_class_vars :: routine where
  "check_mutable_class_vars =
     for_nodes (\<lambda>node.
       do_when (is_class (kind (snd node)))
         (for_each (field ''body'' (snd node)) (\<lambda>b.
            do_when (kind b = Assign)
              (for_each (field ''targets'' b) (\<lambda>t.
                 do_when (is_name (kind t)
                          \<and> list_ex (\<lambda>v. is_mutable_literal (kind v)) (field ''value'' b))
                   (add_issue (''Mutable class var '' @ quoted (the_id (kind t))
                      @ '' at line '' @ str_nat (lineno b) @ ''.'')))))))"

text \<open>The list \<open>returns\<close> of \<open>check_inconsistent_return\<close>: for every \<open>Return\<close>
  below the function, whether it has a value.\<close>

definition returns_of :: "obj \<Rightarrow> bool list" where
  "returns_of node =
     map (\<lambda>sub. field ''value'' (snd sub) \<noteq> [])
       (filter (\<lambda>sub. kind (snd sub) = Return) (walk_obj node))"

definition check_inconsistent_return :: routine where
  "check_inconsistent_return =
     for_nodes (\<lambda>node.
       do_when (is_any_function (kind (snd node)) \<and> 1 < length (remdups (returns_of node)))
         (add_issue (''Inconsistent return in '' @ quoted (def_name (kind (snd node))) @ ''.'')))"

text \<open>\<open>{node.module}\<close>: a missing module prints as \<open>None\<close>.\<close>

definition str_module :: "kind \<Rightarrow> string" where
  "str_module k = (case import_module k of None \<Rightarrow> ''None'' | Some m \<Rightarrow> m)"

definition check_wildcard_imports :: routine where
  "check_wildcard_imports =
     for_nodes (\<lambda>node.
       do_when (is_import_from (kind (snd node)))
         (for_each (field ''names'' (snd node)) (\<lambda>alias.
            do_when (alias_name (kind alias) = ''*'')
              (add_issue (''Wildcard import from '' @ quoted (str_module (kind (snd node)))
                 @ '' at line '' @ str_nat (lineno (snd node)) @ ''.'')))))"

fun blank_lines_loop :: "nat \<Rightarrow> (nat \<times> string) list \<Rightarrow> routine" where
  "blank_lines_loop blank_count [] = ok"
| "blank_lines_loop blank_count ((i, line) # rest) =
     (if strip line = [] then blank_lines_loop (blank_count + 1) rest
      else seq (do_when (2 < blank_count)
                  (add_issue (''Multiple blank lines before line '' @ str_nat i @ ''.'')))
               (blank_lines_loop 0 rest))"

definition check_multiple_consecutive_blank_lines :: routine where
  "check_multiple_consecutive_blank_lines =
     with_lines (\<lambda>ls. blank_lines_loop 0 (enumerate 1 ls))"

definition check_very_large_functions :: routine where
  "check_very_large_functions =
     for_nodes (\<lambda>node.
       do_when (is_function (kind (snd node)) \<and> 50 < length (field ''body'' (snd node)))
         (add_issue (''Large function '' @ quoted (def_name (kind (snd node))) @ '' with ''
            @ str_nat (length (field ''body'' (snd node))) @ '' lines.'')))"

text \<open>\<open>child.parent = node\<close>\<close>

definition set_parent :: "obj \<Rightarrow> obj \<Rightarrow> routine" where
  "set_parent child node r = (None, r\<lparr>parent := (parent r)(fst child \<mapsto> node)\<rparr>)"

definition check_line_numbers :: routine where
  "check_line_numbers =
     for_nodes (\<lambda>node.
       for_each (iter_child_nodes node) (\<lambda>child. set_parent child node))"

text \<open>The calls that \<open>analyze\<close> makes once a tree is there, in its order.\<close>

definition catalog :: "env \<Rightarrow> string \<Rightarrow> routine list" where
  "catalog E code =
     [check_line_numbers,
      check_style E code,
      check_missing_docstrings E,
      check_class_names,
      check_function_names,
      check_variable_names,
      check_constant_names,
      check_unused_imports,
      check_redefined_builtins,
      check_magic_methods,
      check_unreachable_code,
      check_too_many_branches,
      check_too_many_arguments,
      check_nested_functions,
      check_empty_blocks,
      check_break_outside_loop,
      check_continue_outside_loop,
      check_raise_without_exception,
      check_return_outside_function,
      check_global_usage,
      check_nonlocal_usage,
      check_mutable_defaults,
      check_print_statements,
      check_exec_usage,
      check_eval_usage,
      check_pass_statements,
      check_comment_format,
      check_magic_number,
      check_boolean_traps,
      check_todo_comments,
      check_long_lines,
      check_multiple_imports_on_one_line,
      check_bad_indentation,
      check_semicolons,
      check_tabs,
      check_trailing_whitespace,
      check_multiple_statements,
      check_exception_handling,
      check_empty_exceptions,
      check_useless_else_on_loop,
      check_direct_exit_calls,
      check_recursion_limit,
      check_lambda_usage,
      check_format_vs_fstring,
      check_mutable_class_vars,
      check_inconsistent_return,
      check_wildcard_imports,
      check_multiple_consecutive_blank_lines,
      check_very_large_functions]"

definition run_all :: "routine list \<Rightarrow> routine" where
  "run_all ms = for_each ms (\<lambda>m. m)"

definition analyze :: "env \<Rightarrow> string \<Rightarrow> routine" where
  "analyze E code =
     seq (load_code code)
       (seq (parse_code E code)
          (\<lambda>r. if tree r = None then ok r else run_all (catalog E code) r))"

definition get_issues :: "reviewer \<Rightarrow> string list" where
  "get_issues r = issues r"

section \<open>Notions used to state the properties\<close>

subsection \<open>Positions in the tree\<close>




text \<open>The \<open>parent\<close> attributes after \<open>check_line_numbers\<close> on the tree \<open>t\<close>.\<close>

definition link :: "node \<Rightarrow> (path \<rightharpoonup> obj) \<Rightarrow> (path \<rightharpoonup> obj)" where
  "link t par =
     fold (\<lambda>node. fold (\<lambda>child p. p(fst child \<mapsto> node)) (iter_child_nodes node)) (walk t) par"

subsection \<open>What a routine appends\<close>

text \<open>
  \<open>emit (e, ms)\<close> appends the messages \<open>ms\<close> and ends with \<open>e\<close>.  A routine is
  \<open>uniform\<close> when it does just that, with \<open>e\<close> and \<open>ms\<close> determined by the lines,
  the tree and the parent attributes of the object.
\<close>

definition emit :: "error option \<times> string list \<Rightarrow> routine" where
  "emit out r = (fst out, r\<lparr>issues := issues r @ snd out\<rparr>)"

definition uniform :: "routine \<Rightarrow> bool" where
  "uniform m = (\<exists>g. \<forall>r. m r = emit (g (lines r) (tree r) (parent r)) r)"

text \<open>The calls of \<open>analyze\<close> after \<open>check_line_numbers\<close>.\<close>

definition rules :: "env \<Rightarrow> string \<Rightarrow> routine list" where
  "rules E code = tl (catalog E code)"

subsection \<open>Sample sources\<close>

text \<open>
  Source texts with the trees that \<open>ast.parse\<close> builds for them, and an environment
  whose parser knows these texts, whose style checker finds nothing and whose
  \<open>cleandoc\<close> leaves a docstring as it is.
\<close>

definition src_print :: string where
  "src_print = ''print(x)'' @ [newline]"

definition tree_print :: node where
  "tree_print =
     Node Module 0
       [(''body'', Node Expr 1
          [(''value'', Node Call 1
             [(''func'', Node (Name ''print'' Load) 1 []),
              (''args'', Node (Name ''x'' Load) 1 [])])])]"

definition src_name :: string where
  "src_name = ''x'' @ [newline]"

definition tree_name :: node where
  "tree_name = Node Module 0 [(''body'', Node Expr 1 [(''value'', Node (Name ''x'' Load) 1 [])])]"

definition src_broken :: string where
  "src_broken = ''print(''"

definition src_break_nested :: string where
  "src_break_nested =
     ''for x in y:'' @ [newline] @ ''    if x:'' @ [newline] @ ''        break'' @ [newline]"

definition tree_break_nested :: node where
  "tree_break_nested =
     Node Module 0
       [(''body'', Node For 1
          [(''target'', Node (Name ''x'' Store) 1 []),
           (''iter'', Node (Name ''y'' Load) 1 []),
           (''body'', Node IfStmt 2
              [(''test'', Node (Name ''x'' Load) 2 []),
               (''body'', Node Break 3 [])])])]"

definition src_break_top :: string where
  "src_break_top = ''break'' @ [newline]"

definition tree_break_top :: node where
  "tree_break_top = Node Module 0 [(''body'', Node Break 1 [])]"

definition src_return_else :: string where
  "src_return_else =
     ''def f(x):'' @ [newline] @ ''    if x:'' @ [newline] @ ''        pass'' @ [newline]
     @ ''    else:'' @ [newline] @ ''        return 1'' @ [newline]"

definition tree_return_else :: node where
  "tree_return_else =
     Node Module 0
       [(''body'', Node (FunctionDef ''f'') 1
          [(''args'', Node Arguments 0 [(''args'', Node (Arg ''x'') 1 [])]),
           (''body'', Node IfStmt 2
              [(''test'', Node (Name ''x'' Load) 2 []),
               (''body'', Node Pass 3 []),
               (''orelse'', Node Return 5 [(''value'', Node (Constant (CInt 1)) 5 [])])])])]"

definition src_documented :: string where
  "src_documented =
     ''def f(x):'' @ [newline]
     @ ''    '' @ [CHR 0x22, CHR 0x22, CHR 0x22] @ ''Doc.'' @ [CHR 0x22, CHR 0x22, CHR 0x22] @ [newline]
     @ ''    if x:'' @ [newline] @ ''        pass'' @ [newline]
     @ ''    else:'' @ [newline] @ ''        return 1'' @ [newline]"

definition tree_documented :: node where
  "tree_documented =
     Node Module 0
       [(''body'', Node (FunctionDef ''f'') 1
          [(''args'', Node Arguments 0 [(''args'', Node (Arg ''x'') 1 [])]),
           (''body'', Node Expr 2 [(''value'', Node (Constant (CStr ''Doc.'')) 2 [])]),
           (''body'', Node IfStmt 3
              [(''test'', Node (Name ''x'' Load) 3 []),
               (''body'', Node Pass 4 []),
               (''orelse'', Node Return 6 [(''value'', Node (Constant (CInt 1)) 6 [])])])])]"

definition src_unreachable :: string where
  "src_unreachable =
     ''def f():'' @ [newline] @ ''  return'' @ [newline] @ ''  x()'' @ [newline]"

definition tree_unreachable :: node where
  "tree_unreachable =
     Node Module 0
       [(''body'', Node (FunctionDef ''f'') 1
          [(''args'', Node Arguments 0 []),
           (''body'', Node Return 2 []),
           (''body'', Node Expr 3
              [(''value'', Node Call 3 [(''func'', Node (Name ''x'' Load) 3 [])])])])]"

definition src_return_only :: string where
  "src_return_only = ''def f():'' @ [newline] @ ''  return'' @ [newline]"

definition tree_return_only :: node where
  "tree_return_only =
     Node Module 0
       [(''body'', Node (FunctionDef ''f'') 1
          [(''args'', Node Arguments 0 []),
           (''body'', Node Return 2 [])])]"

definition tree_class :: "string \<Rightarrow> node" where
  "tree_class nm = Node Module 0 [(''body'', Node (ClassDef nm) 1 [(''body'', Node Pass 1 [])])]"

definition tree_function :: "string \<Rightarrow> node" where
  "tree_function nm =
     Node Module 0
       [(''body'', Node (FunctionDef nm) 1
          [(''args'', Node Arguments 0 []), (''body'', Node Pass 1 [])])]"





definition parse_example :: "string \<Rightarrow> string + node" where
  "parse_example s =
     (if s = src_print then Inr tree_print
      else if s = src_name then Inr tree_name
      else if s = src_break_nested then Inr tree_break_nested
      else if s = src_break_top then Inr tree_break_top
      else if s = src_documented then Inr tree_documented
      else Inl ([CHR 0x27] @ ''('' @ [CHR 0x27] @ '' was never closed (<unknown>, line 1)''))"

definition env_example :: env where
  "env_example = \<lparr>ast_parse = parse_example, total_errors = (\<lambda>_. 0), cleandoc = (\<lambda>d. d)\<rparr>"

text \<open>An environment whose parser returns the tree \<open>t\<close>, whose style checker counts
  \<open>n\<close> errors and whose \<open>cleandoc\<close> is \<open>c\<close>.\<close>

definition env_with :: "node \<Rightarrow> nat \<Rightarrow> (string \<Rightarrow> string) \<Rightarrow> env" where
  "env_with t n c = \<lparr>ast_parse = (\<lambda>_. Inr t), total_errors = (\<lambda>_. n), cleandoc = c\<rparr>"

text \<open>A reviewer that has just parsed the tree \<open>t\<close>.\<close>

definition parsed :: "node \<Rightarrow> reviewer" where
  "parsed t = init\<lparr>tree := Some t\<rparr>"

subsection \<open>Patterns of the naming rules\<close>

text \<open>The class-name pattern in the words of the specification: a leading uppercase
  letter, alphanumeric throughout.\<close>

definition spec_class_pattern :: "string \<Rightarrow> bool" where
  "spec_class_pattern s =
     (s \<noteq> [] \<and> is_upper (hd s) \<and> list_all (\<lambda>d. is_upper d \<or> is_lower d \<or> is_digit d) s)"

text \<open>The patterns the code matches: an uppercase letter followed by at least one letter or
  digit; a lowercase letter or underscore followed by lowercase letters, digits and
  underscores.\<close>

definition upper_camel :: "string \<Rightarrow> bool" where
  "upper_camel s =
     (2 \<le> length s \<and> is_upper (hd s)
      \<and> list_all (\<lambda>d. is_lower d \<or> is_upper d \<or> is_digit d) (tl s))"

definition lower_snake :: "string \<Rightarrow> bool" where
  "lower_snake s =
     (s \<noteq> [] \<and> (is_lower (hd s) \<or> hd s = CHR ''_'')
      \<and> list_all (\<lambda>d. is_lower d \<or> is_digit d \<or> d = CHR ''_'') (tl s))"

text \<open>The diagnostics of the unreachable-code rule among a list of diagnostics.\<close>

definition unreachable_diagnostics :: "string list \<Rightarrow> string list" where
  "unreachable_diagnostics ms = filter (\<lambda>m. contains m ''nreachable'') ms"

subsection \<open>What the rules flag\<close>














declare parent_chain.simps [code] find_body_holder.simps [code]

section \<open>Every rule appends\<close>

lemma uniformI: "(\<And>r. m r = emit (g (lines r) (tree r) (parent r)) r) \<Longrightarrow> uniform m"
  unfolding uniform_def by blast

lemma uniform_ok: "uniform ok"
  by (rule uniformI [where g = "\<lambda>_ _ _. (None, [])"]) (simp add: ok_def emit_def)

lemma uniform_raise: "uniform (raise e)"
  by (rule uniformI [where g = "\<lambda>_ _ _. (Some e, [])"]) (simp add: raise_def emit_def)

lemma uniform_add_issue: "uniform (add_issue m)"
  by (rule uniformI [where g = "\<lambda>_ _ _. (None, [m])"]) (simp add: add_issue_def emit_def)

lemma uniform_seq:
  assumes "uniform f" and "uniform g"
  shows "uniform (seq f g)"
proof -
  from assms obtain a b where
    a: "\<And>r. f r = emit (a (lines r) (tree r) (parent r)) r" and
    b: "\<And>r. g r = emit (b (lines r) (tree r) (parent r)) r"
    unfolding uniform_def by blast
  show ?thesis
    by (rule uniformI [where g = "\<lambda>l t p. case fst (a l t p) of
            None \<Rightarrow> (fst (b l t p), snd (a l t p) @ snd (b l t p))
          | Some e \<Rightarrow> (Some e, snd (a l t p))"])
       (simp add: seq_def a b emit_def split: option.splits)
qed

lemma uniform_do_when: "uniform f \<Longrightarrow> uniform (do_when c f)"
  by (simp add: do_when_def uniform_ok)

lemma uniform_if: "uniform f \<Longrightarrow> uniform g \<Longrightarrow> uniform (if c then f else g)"
  by simp

lemma uniform_for_each: "(\<And>x. uniform (body x)) \<Longrightarrow> uniform (for_each xs body)"
  by (induction xs) (simp_all add: uniform_ok uniform_seq)

lemma uniform_with_tree:
  assumes "\<And>t. uniform (f t)"
  shows "uniform (with_tree f)"
proof -
  from assms have "\<forall>t. \<exists>g. \<forall>r. f t r = emit (g (lines r) (tree r) (parent r)) r"
    unfolding uniform_def by blast
  then obtain G where G: "\<And>t r. f t r = emit (G t (lines r) (tree r) (parent r)) r"
    by metis
  show ?thesis
    by (rule uniformI [where g = "\<lambda>l t p. case t of None \<Rightarrow> (Some AttributeError, [])
          | Some t' \<Rightarrow> G t' l t p"])
       (simp add: with_tree_def G raise_def emit_def split: option.splits)
qed

lemma uniform_with_lines:
  assumes "\<And>ls. uniform (f ls)"
  shows "uniform (with_lines f)"
proof -
  from assms have "\<forall>t. \<exists>g. \<forall>r. f t r = emit (g (lines r) (tree r) (parent r)) r"
    unfolding uniform_def by blast
  then obtain G where G: "\<And>t r. f t r = emit (G t (lines r) (tree r) (parent r)) r"
    by metis
  show ?thesis
    by (rule uniformI [where g = "\<lambda>l t p. G l l t p"]) (simp add: with_lines_def G)
qed

lemma uniform_with_parent:
  assumes "\<And>par. uniform (f par)"
  shows "uniform (with_parent f)"
proof -
  from assms have "\<forall>t. \<exists>g. \<forall>r. f t r = emit (g (lines r) (tree r) (parent r)) r"
    unfolding uniform_def by blast
  then obtain G where G: "\<And>t r. f t r = emit (G t (lines r) (tree r) (parent r)) r"
    by metis
  show ?thesis
    by (rule uniformI [where g = "\<lambda>l t p. G p l t p"]) (simp add: with_parent_def G)
qed

lemma uniform_for_nodes: "(\<And>x. uniform (body x)) \<Longrightarrow> uniform (for_nodes body)"
  by (simp add: for_nodes_def uniform_with_tree uniform_for_each)

lemma uniform_for_lines: "(\<And>i l. uniform (body i l)) \<Longrightarrow> uniform (for_lines body)"
  by (auto simp add: for_lines_def intro!: uniform_with_lines uniform_for_each)

lemma uniform_unreachable_after: "uniform (unreachable_after par node)"
  by (auto simp: unreachable_after_def split: option.splits
      intro!: uniform_ok uniform_raise uniform_for_each uniform_add_issue)

lemma uniform_unless_ancestor: "uniform flag \<Longrightarrow> uniform (unless_ancestor par w node flag)"
  by (auto simp: unless_ancestor_def split: option.splits
      intro!: uniform_raise uniform_do_when)

lemma uniform_pass_statement: "uniform (pass_statement par node)"
  by (auto simp: pass_statement_def split: option.splits
      intro!: uniform_ok uniform_raise uniform_add_issue)

lemma uniform_blank_lines_loop: "uniform (blank_lines_loop n ls)"
  by (induction n ls rule: blank_lines_loop.induct)
     (auto intro!: uniform_ok uniform_seq uniform_do_when uniform_add_issue)

lemmas uniform_intros =
  uniform_ok uniform_raise uniform_add_issue uniform_seq uniform_do_when uniform_for_each
  uniform_with_tree uniform_with_lines uniform_with_parent uniform_for_nodes uniform_for_lines
  uniform_unreachable_after uniform_unless_ancestor uniform_pass_statement
  uniform_blank_lines_loop

lemma uniform_checks:
  "uniform (check_style E code)"
  "uniform (check_missing_docstrings E)"
  "uniform check_class_names"
  "uniform check_function_names"
  "uniform check_variable_names"
  "uniform check_constant_names"
  "uniform check_unused_imports"
  "uniform check_redefined_builtins"
  "uniform check_magic_methods"
  "uniform check_unreachable_code"
  "uniform check_too_many_branches"
  "uniform check_too_many_arguments"
  "uniform check_nested_functions"
  "uniform check_empty_blocks"
  "uniform check_break_outside_loop"
  "uniform check_continue_outside_loop"
  "uniform check_raise_without_exception"
  "uniform check_return_outside_function"
  "uniform check_global_usage"
  "uniform check_nonlocal_usage"
  "uniform check_mutable_defaults"
  "uniform check_print_statements"
  "uniform check_exec_usage"
  "uniform check_eval_usage"
  "uniform check_pass_statements"
  unfolding check_style_def check_missing_docstrings_def check_class_names_def
    check_function_names_def check_variable_names_def check_constant_names_def
    check_unused_imports_def check_redefined_builtins_def check_magic_methods_def
    check_unreachable_code_def check_too_many_branches_def check_too_many_arguments_def
    check_nested_functions_def check_empty_blocks_def check_break_outside_loop_def
    check_continue_outside_loop_def check_raise_without_exception_def
    check_return_outside_function_def check_global_usage_def check_nonlocal_usage_def
    check_mutable_defaults_def check_print_statements_def check_exec_usage_def
    check_eval_usage_def check_pass_statements_def
  by (intro uniform_intros)+

lemma uniform_checks2:
  "uniform check_comment_format"
  "uniform check_magic_number"
  "uniform check_boolean_traps"
  "uniform check_todo_comments"
  "uniform check_long_lines"
  "uniform check_multiple_imports_on_one_line"
  "uniform check_bad_indentation"
  "uniform check_semicolons"
  "uniform check_tabs"
  "uniform check_trailing_whitespace"
  "uniform check_multiple_statements"
  "uniform check_exception_handling"
  "uniform check_empty_exceptions"
  "uniform check_useless_else_on_loop"
  "uniform check_direct_exit_calls"
  "uniform check_recursion_limit"
  "uniform check_lambda_usage"
  "uniform check_format_vs_fstring"
  "uniform check_mutable_class_vars"
  "uniform check_inconsistent_return"
  "uniform check_wildcard_imports"
  "uniform check_multiple_consecutive_blank_lines"
  "uniform check_very_large_functions"
  unfolding check_comment_format_def check_magic_number_def check_boolean_traps_def
    check_todo_comments_def check_long_lines_def check_multiple_imports_on_one_line_def
    check_bad_indentation_def check_semicolons_def check_tabs_def
    check_trailing_whitespace_def check_multiple_statements_def check_exception_handling_def
    check_empty_exceptions_def check_useless_else_on_loop_def check_direct_exit_calls_def
    check_recursion_limit_def check_lambda_usage_def check_format_vs_fstring_def
    check_mutable_class_vars_def check_inconsistent_return_def check_wildcard_imports_def
    check_multiple_consecutive_blank_lines_def check_very_large_functions_def
  by (intro uniform_intros)+

lemma catalog_rules: "catalog E code = check_line_numbers # rules E code"
  by (simp add: rules_def catalog_def)

lemma uniform_rules: "m \<in> set (rules E code) \<Longrightarrow> uniform m"
  unfolding rules_def catalog_def using uniform_checks uniform_checks2 by auto

lemma uniform_run_all: "(\<And>m. m \<in> set ms \<Longrightarrow> uniform m) \<Longrightarrow> uniform (run_all ms)"
  unfolding run_all_def by (induction ms) (simp_all add: uniform_ok uniform_seq)

subsection \<open>Linking\<close>

lemma set_parents_fold:
  "for_each cs (\<lambda>child. set_parent child node) r =
     (None, r\<lparr>parent := fold (\<lambda>child p. p(fst child \<mapsto> node)) cs (parent r)\<rparr>)"
  by (induction cs arbitrary: r) (simp_all add: ok_def seq_def set_parent_def)

lemma link_nodes_fold:
  "for_each xs (\<lambda>node. for_each (iter_child_nodes node) (\<lambda>child. set_parent child node)) r =
     (None, r\<lparr>parent := fold (\<lambda>node. fold (\<lambda>child p. p(fst child \<mapsto> node))
        (iter_child_nodes node)) xs (parent r)\<rparr>)"
  by (induction xs arbitrary: r) (simp_all add: ok_def seq_def set_parents_fold)

lemma check_line_numbers_link:
  "tree r = Some t \<Longrightarrow> check_line_numbers r = (None, r\<lparr>parent := link t (parent r)\<rparr>)"
  by (simp add: check_line_numbers_def for_nodes_def with_tree_def link_nodes_fold link_def)

subsection \<open>The shape of \<open>analyze\<close>\<close>

lemma emit_view [simp]:
  "lines (snd (emit out r)) = lines r" "tree (snd (emit out r)) = tree r"
  "parent (snd (emit out r)) = parent r" "issues (snd (emit out r)) = issues r @ snd out"
  "fst (emit out r) = fst out"
  by (simp_all add: emit_def)

lemma uniform_prefix: "uniform m \<Longrightarrow> prefix (issues r) (issues (snd (m r)))"
  unfolding uniform_def by (auto simp: emit_def)

lemma analyze_parsed:
  assumes "ast_parse E code = Inr t"
  shows "\<exists>out. \<forall>r. analyze E code r =
           emit out (r\<lparr>lines := split newline code, tree := Some t, parent := link t Map.empty\<rparr>)"
proof -
  have "uniform (run_all (rules E code))"
    by (rule uniform_run_all) (rule uniform_rules)
  then obtain g where g: "\<And>r. run_all (rules E code) r = emit (g (lines r) (tree r) (parent r)) r"
    unfolding uniform_def by blast
  have run: "run_all (catalog E code) r = seq check_line_numbers (run_all (rules E code)) r" for r
    by (simp add: run_all_def catalog_rules)
  show ?thesis
    by (rule exI [where x = "g (split newline code) (Some t) (link t Map.empty)"])
       (simp add: analyze_def seq_def load_code_def parse_code_def assms run
          check_line_numbers_link g)
qed

lemma analyze_unparsed:
  assumes "ast_parse E code = Inl e" and "tree r = None"
  shows "analyze E code r =
           (None, r\<lparr>lines := split newline code, issues := issues r @ [''SyntaxError: '' @ e]\<rparr>)"
  using assms by (simp add: analyze_def seq_def load_code_def parse_code_def add_issue_def ok_def)

lemma analyze_from_init:
  assumes "tree r = None \<or> (\<exists>t. ast_parse E code = Inr t)"
  shows "fst (analyze E code r) = fst (analyze E code init)"
    and "issues (snd (analyze E code r)) = issues r @ issues (snd (analyze E code init))"
    and "tree (snd (analyze E code r)) = tree (snd (analyze E code init))"
proof -
  show "fst (analyze E code r) = fst (analyze E code init)"
       "issues (snd (analyze E code r)) = issues r @ issues (snd (analyze E code init))"
       "tree (snd (analyze E code r)) = tree (snd (analyze E code init))"
  proof (atomize (full), cases "ast_parse E code")
    case (Inr t)
    from analyze_parsed [OF Inr] obtain out where
      "\<And>r. analyze E code r =
           emit out (r\<lparr>lines := split newline code, tree := Some t, parent := link t Map.empty\<rparr>)"
      by blast
    then show "fst (analyze E code r) = fst (analyze E code init) \<and>
       issues (snd (analyze E code r)) = issues r @ issues (snd (analyze E code init)) \<and>
       tree (snd (analyze E code r)) = tree (snd (analyze E code init))"
      by (simp add: init_def)
  next
    case (Inl e)
    with assms have "tree r = None" by auto
    with Inl show "fst (analyze E code r) = fst (analyze E code init) \<and>
       issues (snd (analyze E code r)) = issues r @ issues (snd (analyze E code init)) \<and>
       tree (snd (analyze E code r)) = tree (snd (analyze E code init))"
      by (simp add: analyze_unparsed init_def)
  qed
qed

lemma analyze_tree_kept:
  "tree r = None \<or> (\<exists>t. ast_parse E code = Inr t) \<Longrightarrow>
   tree (snd (analyze E code r)) = None \<or> (\<exists>t. ast_parse E code = Inr t)"
  by (cases "ast_parse E code") (auto simp: analyze_unparsed)

section \<open>The tree and its parent chains\<close>



lemma set_iter_child_nodes:
  "set (iter_child_nodes x) =
     {(fst x @ [i], snd (children (snd x) ! i)) | i. i < length (children (snd x))}"
proof -
  have "set (enumerate 0 cs) = {(i, cs ! i) | i. i < length cs}" for cs :: "(string \<times> node) list"
    by (auto simp: in_set_enumerate_eq)
  then show ?thesis
    unfolding iter_child_nodes_def set_map
    by (auto simp: image_iff split: prod.splits) (metis snd_conv)+
qed












lemma for_each_filter:
  "(\<And>x. x \<in> set xs \<Longrightarrow> body x = do_when (P x) (add_issue (f x))) \<Longrightarrow>
     for_each xs body r = (None, r\<lparr>issues := issues r @ map f (filter P xs)\<rparr>)"
  by (induction xs arbitrary: r) (simp_all add: ok_def seq_def do_when_def add_issue_def)


section \<open>Evaluations of the samples\<close>

lemma eval_print: "get_issues (snd (analyze env_example src_print init)) = [''Print statement at line 1.'']"
  by code_simp

lemma eval_name: "get_issues (snd (analyze env_example src_name init)) = []"
  by code_simp

section \<open>Prefixes\<close>

lemma check_line_numbers_issues: "issues (snd (check_line_numbers r)) = issues r"
  by (cases "tree r")
     (simp_all add: check_line_numbers_link,
      simp add: check_line_numbers_def for_nodes_def with_tree_def raise_def)

lemma catalog_prefix:
  "m \<in> set (catalog E code) \<Longrightarrow> prefix (issues r) (issues (snd (m r)))"
  unfolding catalog_rules
  using uniform_prefix [OF uniform_rules, of m E code r] check_line_numbers_issues [of r]
  by auto

lemma run_all_Cons: "run_all (m # ms) = seq m (run_all ms)"
  by (simp add: run_all_def)

lemma run_all_prefix:
  "(\<And>m r. m \<in> set ms \<Longrightarrow> prefix (issues r) (issues (snd (m r)))) \<Longrightarrow>
     prefix (issues r) (issues (snd (run_all ms r)))"
proof (induction ms arbitrary: r)
  case Nil
  show ?case by (simp add: run_all_def ok_def)
next
  case (Cons m ms)
  have m: "prefix (issues r) (issues (snd (m r)))" by (rule Cons.prems) simp
  show ?case
  proof (cases "m r")
    case (Pair e r')
    show ?thesis
    proof (cases e)
      case None
      have "prefix (issues r') (issues (snd (run_all ms r')))"
        by (rule Cons.IH) (simp add: Cons.prems)
      with m Pair None show ?thesis
        by (auto simp: run_all_Cons seq_def intro: prefix_order.trans)
    next
      case (Some err)
      with m Pair show ?thesis by (simp add: run_all_Cons seq_def)
    qed
  qed
qed

lemma run_all_take_prefix:
  "(\<And>m r. m \<in> set ms \<Longrightarrow> prefix (issues r) (issues (snd (m r)))) \<Longrightarrow>
     prefix (issues (snd (run_all (take k ms) r))) (issues (snd (run_all ms r)))"
proof (induction ms arbitrary: k r)
  case Nil
  show ?case by simp
next
  case (Cons m ms)
  show ?case
  proof (cases k)
    case 0
    have "prefix (issues r) (issues (snd (run_all (m # ms) r)))"
      by (rule run_all_prefix) (rule Cons.prems)
    with 0 show ?thesis by (simp add: run_all_def ok_def)
  next
    case (Suc k')
    have "prefix (issues (snd (run_all (take k' ms) r'))) (issues (snd (run_all ms r')))" for r'
      by (rule Cons.IH) (simp add: Cons.prems)
    with Suc show ?thesis
      by (cases "m r") (auto simp: run_all_Cons seq_def split: option.splits)
  qed
qed

lemma analyze_prefix: "prefix (issues r) (issues (snd (analyze E code r)))"
proof -
  have run: "prefix (issues r') (issues (snd (run_all (catalog E code) r')))" for r'
    by (rule run_all_prefix) (rule catalog_prefix)
  show ?thesis
  proof (cases "ast_parse E code")
    case (Inl e)
    let ?r = "r\<lparr>lines := split newline code, issues := issues r @ [''SyntaxError: '' @ e]\<rparr>"
    have "analyze E code r = (if tree r = None then (None, ?r) else run_all (catalog E code) ?r)"
      using Inl by (simp add: analyze_def seq_def load_code_def parse_code_def add_issue_def ok_def)
    moreover have "prefix (issues r) (issues ?r)" by simp
    ultimately show ?thesis using run [of ?r] by (auto dest: append_prefixD)
  next
    case (Inr t)
    let ?r = "r\<lparr>lines := split newline code, tree := Some t, parent := Map.empty\<rparr>"
    have "analyze E code r = run_all (catalog E code) ?r"
      using Inr by (simp add: analyze_def seq_def load_code_def parse_code_def)
    then show ?thesis using run [of ?r] by simp
  qed
qed

section \<open>The collaborators\<close>

lemma get_docstring_cong: "cleandoc E = cleandoc E' \<Longrightarrow> get_docstring E = get_docstring E'"
  by (intro ext) (auto simp: get_docstring_def split: list.splits)

lemma check_missing_docstrings_cong:
  "cleandoc E = cleandoc E' \<Longrightarrow> check_missing_docstrings E = check_missing_docstrings E'"
  using get_docstring_cong [of E E']
  by (simp add: check_missing_docstrings_def no_docstring_def)

lemma check_style_cong:
  "(0 < total_errors E code) = (0 < total_errors E' code) \<Longrightarrow>
     check_style E code = check_style E' code"
  by (simp add: check_style_def)

lemma analyze_cong:
  assumes "ast_parse E code = ast_parse E' code"
    and "(0 < total_errors E code) = (0 < total_errors E' code)"
    and "cleandoc E = cleandoc E'"
  shows "analyze E code = analyze E' code"
proof -
  have p: "parse_code E code = parse_code E' code"
    by (rule ext) (simp add: parse_code_def assms(1))
  have c: "catalog E code = catalog E' code"
    using check_style_cong [OF assms(2)] check_missing_docstrings_cong [OF assms(3)]
    by (simp add: catalog_def)
  show ?thesis unfolding analyze_def p c ..
qed

lemma analyze_env_with:
  "analyze (env_with t n c) code = analyze (env_with t (if 0 < n then Suc 0 else 0) c) code"
  by (rule analyze_cong) (simp_all add: env_with_def)

lemma return_else_eval:
  "fst (analyze (env_with tree_return_else 0 c) src_return_else init) = Some ValueError"
  "fst (analyze (env_with tree_return_else (Suc 0) c) src_return_else init) = Some ValueError"
  by code_simp+

lemma unreachable_eval:
  "fst (analyze (env_with tree_unreachable 0 c) src_unreachable init) = None"
  "fst (analyze (env_with tree_unreachable (Suc 0) c) src_unreachable init) = None"
  "unreachable_diagnostics (get_issues (snd (analyze (env_with tree_unreachable 0 c) src_unreachable init)))
     = [''Unreachable code after return in line 3.'']"
  "unreachable_diagnostics (get_issues (snd (analyze (env_with tree_unreachable (Suc 0) c) src_unreachable init)))
     = [''Unreachable code after return in line 3.'']"
  "fst (analyze (env_with tree_return_only 0 c) src_return_only init) = None"
  "fst (analyze (env_with tree_return_only (Suc 0) c) src_return_only init) = None"
  "unreachable_diagnostics (get_issues (snd (analyze (env_with tree_return_only 0 c) src_return_only init))) = []"
  "unreachable_diagnostics (get_issues (snd (analyze (env_with tree_return_only (Suc 0) c) src_return_only init))) = []"
  by code_simp+

section \<open>Names and imports\<close>

lemma before_dollar_id: "newline \<notin> set s \<Longrightarrow> before_dollar s = s"
  by (cases s rule: rev_cases) (auto simp: before_dollar_def)

lemma match_class_name_upper_camel:
  "newline \<notin> set s \<Longrightarrow> match_class_name s = upper_camel s"
  by (cases s) (auto simp: match_class_name_def upper_camel_def before_dollar_id Suc_le_eq)

lemma match_snake_name_lower_snake:
  "newline \<notin> set s \<Longrightarrow> match_snake_name s = lower_snake s"
  by (cases s) (auto simp: match_snake_name_def lower_snake_def before_dollar_id)

lemma for_nodes_filter:
  assumes "tree r = Some t"
    and "\<And>x. x \<in> set (walk t) \<Longrightarrow> body x = do_when (P x) (add_issue (f x))"
  shows "for_nodes body r = (None, r\<lparr>issues := issues r @ map f (filter P (walk t))\<rparr>)"
  using assms by (simp add: for_nodes_def with_tree_def for_each_filter)




section \<open>Rules that find nothing\<close>























lemma emit_nothing: "r\<lparr>issues := issues r @ []\<rparr> = r"
  by simp









lemma field_objs_children: "set (field_objs f x) \<subseteq> set (iter_child_nodes x)"
  by (force simp: field_objs_def iter_child_nodes_def)

lemma field_objs_paths: "y \<in> set (field_objs f x) \<Longrightarrow> length (fst y) = Suc (length (fst x))"
  using field_objs_children [of f x] by (auto simp: set_iter_child_nodes)












section \<open>The claims\<close>

text \<open>
  Claim C1 (\<open>analyze\<close> never raises on a text that parses, also when a
  \<open>return\<close> sits in an \<open>else\<close> branch).  \<open>check_unreachable_code\<close> looks the
  \<open>Return\<close> up in \<open>parent.body\<close> only; for the \<open>return\<close> in the \<open>else\<close>
  branch of an \<open>if\<close>, \<open>list.index\<close> raises \<open>ValueError\<close>, whatever the style count,
  \<open>cleandoc\<close> and the state of the reviewer.
\<close>

theorem return_in_else_raises:
  "fst (analyze (env_with tree_return_else n c) src_return_else r) = Some ValueError"
proof -
  have "\<exists>t. ast_parse (env_with tree_return_else n c) src_return_else = Inr t"
    by (simp add: env_with_def)
  then have "fst (analyze (env_with tree_return_else n c) src_return_else r) =
      fst (analyze (env_with tree_return_else n c) src_return_else init)"
    by (intro analyze_from_init(1)) simp
  also have "\<dots> = Some ValueError"
    by (subst analyze_env_with) (simp add: return_else_eval)
  finally show ?thesis .
qed

text \<open>
  Claim C2 (an unparseable text yields exactly one diagnostic and no rule runs, also on a
  reviewer that analysed a text before).  \<open>parse_code\<close> leaves \<open>self.tree\<close> as it
  was when parsing fails, so on a reviewer that parsed \<open>print(x)\<close> before, the guard
  \<open>if not self.tree\<close> lets every rule run on the old tree: the call on the broken text
  appends the syntax error and the print diagnostic of the old tree.
\<close>

theorem stale_tree_after_parse_failure:
  "get_issues (snd (analyze env_example src_broken (snd (analyze env_example src_print init)))) =
     [''Print statement at line 1.'',
      ''SyntaxError: '' @ [CHR 0x27] @ ''('' @ [CHR 0x27] @ '' was never closed (<unknown>, line 1)'',
      ''Print statement at line 1.'']"
  by code_simp




text \<open>
  Claim C4 (two calls of \<open>analyze\<close> on the same text give the same list).  The list
  lives in the reviewer and is never emptied: after the second call on one reviewer
  \<open>get_issues\<close> returns more than after the first.
\<close>

theorem analyze_twice_counterexample:
  "get_issues (snd (analyze env_example src_print (snd (analyze env_example src_print init))))
     \<noteq> get_issues (snd (analyze env_example src_print init))"
  by code_simp

text \<open>
  Claim C4, in the form the code satisfies: the second call on a new reviewer appends exactly the diagnostics the
  first call produced, in the same order, and ends the same way; \<open>get_issues\<close> then
  returns the first list twice over.
\<close>

theorem analyze_twice:
  "get_issues (snd (analyze E code (snd (analyze E code init)))) =
     get_issues (snd (analyze E code init)) @ get_issues (snd (analyze E code init))
   \<and> fst (analyze E code (snd (analyze E code init))) = fst (analyze E code init)"
proof -
  have "tree init = None \<or> (\<exists>t. ast_parse E code = Inr t)" by (simp add: init_def)
  then have "tree (snd (analyze E code init)) = None \<or> (\<exists>t. ast_parse E code = Inr t)"
    by (rule analyze_tree_kept)
  from analyze_from_init [OF this] show ?thesis by (simp add: get_issues_def)
qed

text \<open>
  Claim C5 (the diagnostics after a call depend only on that call's text).  After
  \<open>print(x)\<close>, the call on the clean text \<open>x\<close> leaves the print diagnostic in the
  list, which the same call on a new reviewer does not produce.
\<close>

theorem analyze_accumulates_counterexample:
  "get_issues (snd (analyze env_example src_name (snd (analyze env_example src_print init))))
     \<noteq> get_issues (snd (analyze env_example src_name init))"
  by code_simp

text \<open>
  Claim C5, in the form the code satisfies: the list is created empty by \<open>__init__\<close> and \<open>analyze\<close>
  appends to it.  When the text parses, or the reviewer holds no tree, the list after the
  call is the list before it followed by the diagnostics of the same call on a new
  reviewer, and the call ends as it does there.
\<close>

theorem analyze_accumulates:
  "tree r = None \<or> (\<exists>t. ast_parse E code = Inr t) \<Longrightarrow>
     fst (analyze E code r) = fst (analyze E code init) \<and>
     get_issues (snd (analyze E code r)) = get_issues r @ get_issues (snd (analyze E code init))"
  using analyze_from_init [of r E code] by (simp add: get_issues_def)

theorem analyze_accumulates_witness:
  "get_issues (snd (analyze env_example src_name (snd (analyze env_example src_print init)))) =
     [''Print statement at line 1.'']"
proof -
  have "\<exists>t. ast_parse env_example src_name = Inr t"
    by (simp add: env_example_def parse_example_def src_name_def src_print_def)
  then have "tree (snd (analyze env_example src_print init)) = None
      \<or> (\<exists>t. ast_parse env_example src_name = Inr t)" by simp
  from analyze_accumulates [OF this] show ?thesis
    by (simp add: eval_print eval_name)
qed



text \<open>
  Claim C9 (during a pass every check only extends the list).  Whatever the state, the list
  before a call of the catalog is a prefix of the list after it; the list after the first
  \<open>k\<close> calls is a prefix of the list after all of them; and the list before
  \<open>analyze\<close> is a prefix of the list after it.
\<close>

theorem checks_append_only:
  "(\<forall>m \<in> set (catalog E code). prefix (issues r) (issues (snd (m r))))
   \<and> (\<forall>k. prefix (issues (snd (run_all (take k (catalog E code)) r)))
              (issues (snd (run_all (catalog E code) r))))
   \<and> prefix (issues r) (issues (snd (analyze E code r)))"
  using catalog_prefix [of _ E code] run_all_take_prefix [of "catalog E code"] analyze_prefix
  by blast

theorem checks_append_only_witness:
  "prefix [''Print statement at line 1.'']
     (issues (snd (check_print_statements (snd (analyze env_example src_print init)))))"
proof -
  have "check_print_statements \<in> set (catalog env_example src_print)"
    by (simp add: catalog_def)
  with checks_append_only [of env_example src_print "snd (analyze env_example src_print init)"]
  have "prefix (issues (snd (analyze env_example src_print init)))
     (issues (snd (check_print_statements (snd (analyze env_example src_print init)))))"
    by blast
  then show ?thesis using eval_print by (simp add: get_issues_def)
qed

text \<open>
  Claim C7 (unreachable-code boundary).  For \<open>def f(): return; x()\<close> on three lines
  the call returns and exactly one diagnostic of the rule is in the list, naming line 3,
  the line of \<open>x()\<close>; for \<open>def f(): return\<close> there is none.
\<close>

theorem unreachable_boundary:
  "fst (analyze (env_with tree_unreachable n c) src_unreachable init) = None
   \<and> unreachable_diagnostics (get_issues (snd (analyze (env_with tree_unreachable n c) src_unreachable init)))
       = [''Unreachable code after return in line 3.'']
   \<and> fst (analyze (env_with tree_return_only n c) src_return_only init) = None
   \<and> unreachable_diagnostics (get_issues (snd (analyze (env_with tree_return_only n c) src_return_only init))) = []"
  by (subst (1 2 3 4) analyze_env_with) (simp add: unreachable_eval)

text \<open>
  Claim C8 (a class is flagged exactly when its name fails ``leading uppercase, then
  alphanumerics'').  The one-letter class name \<open>A\<close> passes that pattern and is
  flagged.
\<close>

theorem naming_rules_counterexample:
  "spec_class_pattern ''A''
   \<and> get_issues (snd (check_class_names (parsed (tree_class ''A'')))) =
       [''Class '' @ quoted ''A'' @ '' naming style.'']"
  by code_simp

text \<open>
  Claim C8, in the form the code satisfies: on a tree whose names hold no newline, a class definition is flagged
  exactly when its name is not an uppercase letter followed by at least one letter or
  digit, and a function definition exactly when its name is not a lowercase letter or
  underscore followed by lowercase letters, digits and underscores; one message per such
  node, in walk order.  \<open>Foo1\<close> and \<open>_private2\<close> pass; \<open>foo1\<close>, \<open>1Foo\<close>
  and \<open>Bad\<close> are flagged.
\<close>

theorem naming_rules:
  "(tree r = Some t \<and> (\<forall>x\<in>set (walk t). newline \<notin> set (def_name (kind (snd x)))) \<longrightarrow>
      check_class_names r =
        (None, r\<lparr>issues := issues r @
           map (\<lambda>x. ''Class '' @ quoted (def_name (kind (snd x))) @ '' naming style.'')
             (filter (\<lambda>x. is_class (kind (snd x)) \<and> \<not> upper_camel (def_name (kind (snd x))))
                (walk t))\<rparr>)
      \<and> check_function_names r =
        (None, r\<lparr>issues := issues r @
           map (\<lambda>x. ''Function '' @ quoted (def_name (kind (snd x))) @ '' naming style.'')
             (filter (\<lambda>x. is_function (kind (snd x)) \<and> \<not> lower_snake (def_name (kind (snd x))))
                (walk t))\<rparr>))
   \<and> get_issues (snd (check_class_names (parsed (tree_class ''Foo1'')))) = []
   \<and> get_issues (snd (check_class_names (parsed (tree_class ''foo1'')))) =
       [''Class '' @ quoted ''foo1'' @ '' naming style.'']
   \<and> get_issues (snd (check_class_names (parsed (tree_class ''1Foo'')))) =
       [''Class '' @ quoted ''1Foo'' @ '' naming style.'']
   \<and> get_issues (snd (check_function_names (parsed (tree_function ''_private2'')))) = []
   \<and> get_issues (snd (check_function_names (parsed (tree_function ''Bad'')))) =
       [''Function '' @ quoted ''Bad'' @ '' naming style.'']"
proof (intro conjI impI)
  assume a: "tree r = Some t \<and> (\<forall>x\<in>set (walk t). newline \<notin> set (def_name (kind (snd x))))"
  show "check_class_names r =
        (None, r\<lparr>issues := issues r @
           map (\<lambda>x. ''Class '' @ quoted (def_name (kind (snd x))) @ '' naming style.'')
             (filter (\<lambda>x. is_class (kind (snd x)) \<and> \<not> upper_camel (def_name (kind (snd x))))
                (walk t))\<rparr>)"
    unfolding check_class_names_def
    by (rule for_nodes_filter) (use a in \<open>simp_all add: match_class_name_upper_camel\<close>)
  show "check_function_names r =
        (None, r\<lparr>issues := issues r @
           map (\<lambda>x. ''Function '' @ quoted (def_name (kind (snd x))) @ '' naming style.'')
             (filter (\<lambda>x. is_function (kind (snd x)) \<and> \<not> lower_snake (def_name (kind (snd x))))
                (walk t))\<rparr>)"
    unfolding check_function_names_def
    by (rule for_nodes_filter) (use a in \<open>simp_all add: match_snake_name_lower_snake\<close>)
qed code_simp+

theorem naming_rules_witness:
  "check_class_names (parsed (tree_class ''A'')) =
     (None, (parsed (tree_class ''A''))\<lparr>issues := [''Class '' @ quoted ''A'' @ '' naming style.'']\<rparr>)"
proof -
  have a: "tree (parsed (tree_class ''A'')) = Some (tree_class ''A'')
      \<and> (\<forall>x\<in>set (walk (tree_class ''A'')). newline \<notin> set (def_name (kind (snd x))))"
    by code_simp
  have f: "map (\<lambda>x. ''Class '' @ quoted (def_name (kind (snd x))) @ '' naming style.'')
       (filter (\<lambda>x. is_class (kind (snd x)) \<and> \<not> upper_camel (def_name (kind (snd x))))
          (walk (tree_class ''A''))) = [''Class '' @ quoted ''A'' @ '' naming style.'']"
    by code_simp
  from naming_rules [of "parsed (tree_class ''A'')" "tree_class ''A''"] a
  have "check_class_names (parsed (tree_class ''A'')) =
        (None, (parsed (tree_class ''A''))\<lparr>issues := issues (parsed (tree_class ''A'')) @
           map (\<lambda>x. ''Class '' @ quoted (def_name (kind (snd x))) @ '' naming style.'')
             (filter (\<lambda>x. is_class (kind (snd x)) \<and> \<not> upper_camel (def_name (kind (snd x))))
                (walk (tree_class ''A'')))\<rparr>)"
    by blast
  then show ?thesis unfolding f by (simp add: parsed_def init_def)
qed



end
